theory Spec2Isabelle
  imports Main "HOL-Library.Sublist"
begin

section \<open>Data model of the swap form (frontend/src/App.jsx)\<close>

text \<open>
  A token object of the \<open>tokens\<close> array: \<open>name\<close>, \<open>address\<close> and \<open>img\<close> are
  always present, \<open>balance\<close> is the property that \<open>getTokenBalance\<close> adds with an object
  spread; \<open>None\<close> stands for the absent property.
\<close>

record token =
  name :: string
  address :: string
  img :: string
  balance :: "string option"

definition tokens :: "token list" where
  "tokens =
    [ \<lparr>name = ''ETH'',
       address = ''0x4200000000000000000000000000000000000006'',
       img = ''https://cdn.worldvectorlogo.com/logos/ethereum-eth.svg'',
       balance = None\<rparr>,
      \<lparr>name = ''USDC'',
       address = ''0x833589fCD6eDb6E08f4c7C32D4f71b54bdA02913'',
       img = ''https://encrypted-tbn0.gstatic.com/images?q=tbn:ANd9GcQ43MuDqq54iD1ZCRL_uthAPkfwSSL-J5qI_Q&s'',
       balance = None\<rparr>,
      \<lparr>name = ''USDT'',
       address = ''0xfde4C96c8593536E31F229EA8f37b2ADa2699bb2'',
       img = ''https://images.seeklogo.com/logo-png/32/1/tether-usdt-logo-png_seeklogo-323175.png'',
       balance = None\<rparr>,
      \<lparr>name = ''LINK'',
       address = ''0x1D9328F2713E8b4EFca304093D53fcC2c068B7Cd'',
       img = ''https://s2.coinmarketcap.com/static/img/coins/200x200/1975.png'',
       balance = None\<rparr> ]"

text \<open>
  A parsed JSON value, as \<open>response.json()\<close> resolves to. Numbers are restricted to
  integers: the only thing the code asks of a number is whether it is zero.
\<close>

datatype json =
    JNull
  | JBool bool
  | JNum int
  | JStr string
  | JArr "json list"
  | JObj "(string \<times> json) list"

text \<open>Handles of the wallet library: the signer of an account and the browser provider.\<close>

datatype signer_handle = JsonRpcSigner string

datatype provider_handle = BrowserProvider

text \<open>
  The \<open>useState\<close> cells of \<open>App\<close>. The state variable \<open>address\<close> is the field
  \<open>walletAddress\<close>, since \<open>address\<close> is already the token property. \<open>signer\<close>,
  \<open>walletAddress\<close> and \<open>provider\<close> start as \<open>undefined\<close>, which is \<open>None\<close>.
\<close>

record app =
  fromToken :: token
  toToken :: token
  amount :: string
  isRoute :: bool
  data1 :: json
  signer :: "signer_handle option"
  walletAddress :: "string option"
  provider :: "provider_handle option"
  searchTerm :: string

definition initial :: app where
  "initial =
    \<lparr>fromToken = tokens ! 0,
     toToken = tokens ! 2,
     amount = '''',
     isRoute = False,
     data1 = JObj [],
     signer = None,
     walletAddress = None,
     provider = None,
     searchTerm = ''''\<rparr>"

section \<open>Direction swap, presets and the token filter\<close>

definition handleSwap :: "app \<Rightarrow> app" where
  "handleSwap s = (let token1 = fromToken s in s\<lparr>fromToken := toToken s, toToken := token1\<rparr>)"

text \<open>The four percentage buttons, each with the string its \<open>onClick\<close> stores.\<close>

datatype preset = P25 | P50 | P75 | P100

fun label :: "preset \<Rightarrow> string" where
  "label P25 = ''25%''"
| "label P50 = ''50%''"
| "label P75 = ''75%''"
| "label P100 = ''100%''"

definition presets :: "preset list" where
  "presets = [P25, P50, P75, P100]"

definition setAmount :: "string \<Rightarrow> app \<Rightarrow> app" where
  "setAmount v s = s\<lparr>amount := v\<rparr>"

text \<open>
  The class name of a preset button carries \<open>active\<close> exactly when
  \<open>amount === "<label>"\<close> holds.
\<close>

definition active :: "app \<Rightarrow> preset \<Rightarrow> bool" where
  "active s p = (amount s = label p)"

text \<open>
  \<open>String.prototype.toLowerCase\<close> on the letters A to Z; every other character of the
  model's byte strings is left as it is.
\<close>

definition lowerChar :: "char \<Rightarrow> char" where
  "lowerChar c =
    (let n = (of_char c :: nat) in if 65 \<le> n \<and> n \<le> 90 then char_of (n + 32) else c)"

definition toLowerCase :: "string \<Rightarrow> string" where
  "toLowerCase str = map lowerChar str"

text \<open>
  \<open>String.prototype.includes\<close>: the search string is looked for at every start position
  of the receiver, the position past its end included.
\<close>

fun includes_str :: "string \<Rightarrow> string \<Rightarrow> bool" where
  "includes_str [] search = (search = [])"
| "includes_str (c # cs) search = (prefix search (c # cs) \<or> includes_str cs search)"

definition filteredTokens :: "string \<Rightarrow> token list" where
  "filteredTokens search =
    filter (\<lambda>token. includes_str (toLowerCase (name token)) (toLowerCase search)) tokens"

definition setSearchTerm :: "string \<Rightarrow> app \<Rightarrow> app" where
  "setSearchTerm v s = s\<lparr>searchTerm := v\<rparr>"

text \<open>
  What the two dropdowns render: the \<open>value\<close> of the search box and the list items.
  Both boxes call \<open>setSearchTerm\<close> from \<open>onChange\<close>.
\<close>

definition sourceSearchValue :: "app \<Rightarrow> string" where
  "sourceSearchValue s = searchTerm s"

definition destinationSearchValue :: "app \<Rightarrow> string" where
  "destinationSearchValue s = searchTerm s"

definition sourceDropdownItems :: "app \<Rightarrow> token list" where
  "sourceDropdownItems s = filteredTokens (searchTerm s)"

definition destinationDropdownItems :: "app \<Rightarrow> token list" where
  "destinationDropdownItems s = filteredTokens (searchTerm s)"

definition sourceSearchOnChange :: "string \<Rightarrow> app \<Rightarrow> app" where
  "sourceSearchOnChange v s = setSearchTerm v s"

definition destinationSearchOnChange :: "string \<Rightarrow> app \<Rightarrow> app" where
  "destinationSearchOnChange v s = setSearchTerm v s"

section \<open>The environment: network, wallet extension and the ethers library\<close>

text \<open>How a promise settles.\<close>

datatype 'a outcome = Resolved 'a | Rejected string

text \<open>
  The body of an HTTP response is either the text of a JSON value, given by the value it
  parses to, or some other text, on which \<open>response.json()\<close> rejects.
\<close>

datatype body = JsonBody json | NonJsonBody string

record response =
  status :: nat
  body :: body

definition ok :: "response \<Rightarrow> bool" where
  "ok r = (200 \<le> status r \<and> status r \<le> 299)"

fun response_json :: "response \<Rightarrow> json outcome" where
  "response_json r =
    (case body r of
       JsonBody v \<Rightarrow> Resolved v
     | NonJsonBody txt \<Rightarrow> Rejected ''SyntaxError'')"

record payload =
  token1Address :: string
  token1Amount :: string
  token2Address :: string

text \<open>
  The injected wallet \<open>window.ethereum\<close>, by what it answers: to \<open>provider.getSigner()\<close>,
  \<open>signer.getAddress()\<close>, \<open>provider.send("eth_requestAccounts", [])\<close>,
  \<open>provider.getBalance(account)\<close>, and to the three reads of a token contract.
\<close>

record wallet =
  getSigner :: "signer_handle outcome"
  signerGetAddress :: "signer_handle \<Rightarrow> string outcome"
  requestAccounts :: "string list outcome"
  getBalance :: "string \<Rightarrow> int outcome"
  balanceOf :: "string \<Rightarrow> string \<Rightarrow> int outcome"
  decimals :: "string \<Rightarrow> nat outcome"
  symbol :: "string \<Rightarrow> string outcome"

text \<open>
  Everything outside the component. \<open>ethereum\<close> is \<open>window.ethereum\<close>, \<open>None\<close> when no
  extension is installed. \<open>fetch\<close> settles the request of \<open>aggregate\<close>. \<open>audioPlay\<close>
  settles \<open>audio.play()\<close>. \<open>getAddress\<close> and \<open>formatUnits\<close> are the functions of the
  ethers library the component calls: \<open>getAddress\<close> gives \<open>None\<close> where the library
  throws on a malformed address.
\<close>

record world =
  ethereum :: "wallet option"
  fetch :: "string \<Rightarrow> payload \<Rightarrow> response outcome"
  audioPlay :: "unit outcome"
  getAddress :: "string \<Rightarrow> string option"
  formatUnits :: "int \<Rightarrow> nat \<Rightarrow> string"

text \<open>The ethers library defines \<open>formatEther(wei)\<close> as \<open>formatUnits(wei, 18)\<close>.\<close>

definition formatEther :: "world \<Rightarrow> int \<Rightarrow> string" where
  "formatEther w wei = formatUnits w wei 18"

text \<open>
  What a handler does to the outside, in the order one call issues it: every request it
  starts and every message it shows or logs.
\<close>

datatype contract_read = BalanceOf string | Decimals | Symbol

datatype event =
    Alert string
  | ConsoleError string
  | ConsoleLog string
  | ConsoleWarn string
  | Fetch string payload
  | AudioPlay
  | GetSigner
  | SignerGetAddress
  | RpcSend string
  | ProviderGetBalance string
  | ContractRead string contract_read
  | UnhandledRejection string

section \<open>The aggregator client (services/api: aggregate)\<close>

text \<open>
  The result is \<open>Some data\<close> for \<open>return data\<close> and \<open>None\<close> for the \<open>undefined\<close> the
  function returns after its \<open>catch\<close>. The status of the response is never read.
\<close>

definition aggregate :: "world \<Rightarrow> string \<Rightarrow> string \<Rightarrow> string \<Rightarrow> json option \<times> event list" where
  "aggregate w a1 amt a2 =
    (let url = '''';
         payload = \<lparr>token1Address = a1, token1Amount = amt, token2Address = a2\<rparr>
     in case fetch w url payload of
          Rejected err \<Rightarrow> (None, [Fetch url payload, ConsoleError ''Hata:''])
        | Resolved response \<Rightarrow>
            (case response_json response of
               Rejected err \<Rightarrow> (None, [Fetch url payload, ConsoleError ''Hata:''])
             | Resolved data \<Rightarrow> (Some data, [Fetch url payload])))"

section \<open>Route request (handleFinishSwap) and the route panel\<close>

text \<open>JavaScript truthiness of what \<open>aggregate\<close> returns, for \<open>if (data)\<close>.\<close>

fun truthy :: "json option \<Rightarrow> bool" where
  "truthy None = False"
| "truthy (Some JNull) = False"
| "truthy (Some (JBool b)) = b"
| "truthy (Some (JNum n)) = (n \<noteq> 0)"
| "truthy (Some (JStr str)) = (str \<noteq> [])"
| "truthy (Some (JArr xs)) = True"
| "truthy (Some (JObj kvs)) = True"

text \<open>
  The handler up to its \<open>await\<close>: the flag is set, then the request starts. The state is
  the one the handler's render saw.
\<close>

definition handleFinishSwap_start :: "app \<Rightarrow> app" where
  "handleFinishSwap_start s = s\<lparr>isRoute := True\<rparr>"

text \<open>
  The handler after the \<open>await\<close>, on the state \<open>s\<close> current at that moment, with what
  \<open>aggregate\<close> returned.
\<close>

definition handleFinishSwap_resume :: "world \<Rightarrow> json option \<Rightarrow> app \<Rightarrow> app \<times> event list" where
  "handleFinishSwap_resume w data s =
    (case data of
       None \<Rightarrow> (s, [ConsoleLog ''Failed to update transaction status''])
     | Some d \<Rightarrow>
         if truthy (Some d)
         then (s\<lparr>data1 := d\<rparr>,
               [ConsoleLog ''DATA1'', AudioPlay] @
               (case audioPlay w of
                  Resolved u \<Rightarrow> []
                | Rejected err \<Rightarrow> [ConsoleWarn ''play failed'']))
         else (s, [ConsoleLog ''Failed to update transaction status'']))"

definition handleFinishSwap :: "world \<Rightarrow> app \<Rightarrow> app \<times> event list" where
  "handleFinishSwap w s =
    (let s1 = handleFinishSwap_start s;
         (data, ev1) = aggregate w (address (fromToken s)) ''1'' (address (toToken s));
         (s2, ev2) = handleFinishSwap_resume w data s1
     in (s2, ev1 @ ev2))"

text \<open>
  The body of the route accordion: the entries of \<open>data1\<close> when \<open>Object.keys\<close> finds any,
  the three fixed sample routes otherwise. The accordion itself is rendered only while
  \<open>isRoute\<close> holds.
\<close>

fun objectKeysLength :: "json \<Rightarrow> nat" where
  "objectKeysLength (JObj kvs) = length (remdups (map fst kvs))"
| "objectKeysLength (JArr xs) = length xs"
| "objectKeysLength (JStr str) = length str"
| "objectKeysLength v = 0"

datatype accordion_body = Entries json | SampleRoutes

definition accordionBody :: "app \<Rightarrow> accordion_body" where
  "accordionBody s = (if objectKeysLength (data1 s) > 0 then Entries (data1 s) else SampleRoutes)"

definition routePanel :: "app \<Rightarrow> accordion_body option" where
  "routePanel s = (if isRoute s then Some (accordionBody s) else None)"

section \<open>Balance read (getTokenBalance) and wallet connection (handleConnectWallet)\<close>

text \<open>
  The last lines of \<open>getTokenBalance\<close>: the token of the role is copied from the render
  \<open>c\<close> the handler closed over, gets the balance, and is stored in the current state.
\<close>

definition storeBalance :: "app \<Rightarrow> string \<Rightarrow> string \<Rightarrow> string \<Rightarrow> app \<Rightarrow> app \<times> event list" where
  "storeBalance c fromOrTo bal symb s =
    (let updatedToken = (if fromOrTo = ''from'' then fromToken c else toToken c)\<lparr>balance := Some bal\<rparr>
     in (if fromOrTo = ''from'' then s\<lparr>fromToken := updatedToken\<rparr> else s\<lparr>toToken := updatedToken\<rparr>,
         [ConsoleLog (symb @ '' Balance:'')]))"

text \<open>
  The three contract reads are the elements of one array handed to \<open>Promise.all\<close>: all
  three are started before any of them is awaited, so all three are issued whatever each
  of them answers. A rejection of \<open>provider.send\<close> or of \<open>provider.getBalance\<close> is outside
  the \<open>try\<close> and leaves the promise of the call rejected, which no caller awaits.
\<close>

definition getTokenBalance :: "world \<Rightarrow> app \<Rightarrow> string \<Rightarrow> string \<Rightarrow> app \<Rightarrow> app \<times> event list" where
  "getTokenBalance w c tokenAddress fromOrTo s =
    (case ethereum w of
       None \<Rightarrow> (s, [ConsoleError ''MetaMask not detected''])
     | Some eth \<Rightarrow>
        (case requestAccounts eth of
           Rejected err \<Rightarrow> (s, [RpcSend ''eth_requestAccounts'', UnhandledRejection err])
         | Resolved accounts \<Rightarrow>
            (case accounts of
               [] \<Rightarrow> (s, [RpcSend ''eth_requestAccounts'', ConsoleError ''No address found''])
             | userAddress # rest \<Rightarrow>
                if userAddress = []
                then (s, [RpcSend ''eth_requestAccounts'', ConsoleError ''No address found''])
                else if tokenAddress = ''0x4200000000000000000000000000000000000006''
                then
                  (case getBalance eth userAddress of
                     Rejected err \<Rightarrow>
                       (s, [RpcSend ''eth_requestAccounts'', ProviderGetBalance userAddress,
                            UnhandledRejection err])
                   | Resolved rawBalance \<Rightarrow>
                       (let (s', ev) = storeBalance c fromOrTo (formatEther w rawBalance) ''ETH'' s
                        in (s', [RpcSend ''eth_requestAccounts'', ProviderGetBalance userAddress] @ ev)))
                else
                  (case getAddress w tokenAddress of
                     None \<Rightarrow>
                       (s, [RpcSend ''eth_requestAccounts'',
                            ConsoleError ''Error getting token balance:''])
                   | Some contractAddress \<Rightarrow>
                       (let reads = [ContractRead contractAddress (BalanceOf userAddress),
                                     ContractRead contractAddress Decimals,
                                     ContractRead contractAddress Symbol]
                        in case (balanceOf eth contractAddress userAddress,
                                 decimals eth contractAddress,
                                 symbol eth contractAddress) of
                             (Resolved rawBalance, Resolved dec, Resolved fetchedSymbol) \<Rightarrow>
                               (let (s', ev) =
                                      storeBalance c fromOrTo (formatUnits w rawBalance dec) fetchedSymbol s
                                in (s', [RpcSend ''eth_requestAccounts''] @ reads @ ev))
                           | other \<Rightarrow>
                               (s, [RpcSend ''eth_requestAccounts''] @ reads @
                                   [ConsoleError ''Error getting token balance:'']))))))"

text \<open>
  \<open>handleConnectWallet\<close>. The two balance reads are started without \<open>await\<close>; the event
  list gives the events of the first call, then those of the second.
\<close>

definition handleConnectWallet :: "world \<Rightarrow> app \<Rightarrow> app \<times> event list" where
  "handleConnectWallet w s =
    (case ethereum w of
       None \<Rightarrow> (s, [Alert ''MetaMask not found!''])
     | Some eth \<Rightarrow>
        (case getSigner eth of
           Rejected err \<Rightarrow> (s, [GetSigner, ConsoleError ''Error connecting wallet:''])
         | Resolved sg \<Rightarrow>
            (case signerGetAddress eth sg of
               Rejected err \<Rightarrow>
                 (s, [GetSigner, SignerGetAddress, ConsoleError ''Error connecting wallet:''])
             | Resolved addr \<Rightarrow>
                 (let s1 = s\<lparr>signer := Some sg, walletAddress := Some addr,
                              provider := Some BrowserProvider\<rparr>;
                      (s2, ev1) = getTokenBalance w s (address (fromToken s)) ''from'' s1;
                      (s3, ev2) = getTokenBalance w s (address (toToken s)) ''to'' s2
                  in (s3, [GetSigner, SignerGetAddress] @ ev1 @ ev2 @
                          [ConsoleLog ''Wallet connected:''])))))"

section \<open>The controller as a state machine\<close>

text \<open>
  Every way the user can change the state: the swap button, a click on an item of either
  dropdown, a preset button, typing in either search box, the Swap button and the
  Connect button. Each action comes with the world it runs in.
\<close>

datatype action =
    ClickSwapDirection
  | ClickFromItem token
  | ClickToItem token
  | ClickPreset preset
  | TypeSourceSearch string
  | TypeDestinationSearch string
  | ClickSwap
  | ClickConnect

fun step :: "world \<Rightarrow> action \<Rightarrow> app \<Rightarrow> app" where
  "step w ClickSwapDirection s = handleSwap s"
| "step w (ClickFromItem t) s = s\<lparr>fromToken := t\<rparr>"
| "step w (ClickToItem t) s = s\<lparr>toToken := t\<rparr>"
| "step w (ClickPreset p) s = setAmount (label p) s"
| "step w (TypeSourceSearch v) s = sourceSearchOnChange v s"
| "step w (TypeDestinationSearch v) s = destinationSearchOnChange v s"
| "step w ClickSwap s = fst (handleFinishSwap w s)"
| "step w ClickConnect s = fst (handleConnectWallet w s)"

fun run :: "(world \<times> action) list \<Rightarrow> app \<Rightarrow> app" where
  "run [] s = s"
| "run ((w, a) # rest) s = run rest (step w a s)"


fun isFetch :: "event \<Rightarrow> bool" where
  "isFetch (Fetch u p) = True"
| "isFetch e = False"

section \<open>Sample environments\<close>

text \<open>
  A stand-in for the library's \<open>formatUnits\<close> in the sample environments: the integer part,
  a point, and the fraction on exactly \<open>dec\<close> digits.
\<close>

definition digitChar :: "nat \<Rightarrow> char" where
  "digitChar n = ''0123456789'' ! n"

function showNat :: "nat \<Rightarrow> string" where
  "showNat n = (if n < 10 then [digitChar n] else showNat (n div 10) @ [digitChar (n mod 10)])"
  by pat_completeness auto
termination
  by (relation "measure id") auto

definition sampleFormatUnits :: "int \<Rightarrow> nat \<Rightarrow> string" where
  "sampleFormatUnits raw dec =
    (let whole = showNat (nat raw div 10 ^ dec);
         frac = showNat (nat raw mod 10 ^ dec)
     in if dec = 0 then whole
        else whole @ ''.'' @ replicate (dec - length frac) (CHR ''0'') @ frac)"

text \<open>A browser without a wallet extension whose network gives one fixed answer.\<close>

definition worldWithoutWallet :: "response outcome \<Rightarrow> world" where
  "worldWithoutWallet answer =
    \<lparr>ethereum = None,
     fetch = (\<lambda>url p. answer),
     audioPlay = Resolved (),
     getAddress = (\<lambda>a. Some a),
     formatUnits = sampleFormatUnits\<rparr>"




fun isRequest :: "event \<Rightarrow> bool" where
  "isRequest (Fetch u p) = True"
| "isRequest GetSigner = True"
| "isRequest SignerGetAddress = True"
| "isRequest (RpcSend m) = True"
| "isRequest (ProviderGetBalance a) = True"
| "isRequest (ContractRead a r) = True"
| "isRequest e = False"

text \<open>The stored state of the route: the in-route flag and the route mapping.\<close>

definition routeState :: "app \<Rightarrow> bool \<times> json" where
  "routeState s = (isRoute s, data1 s)"


text \<open>
  A response is malformed when its status is outside 200 to 299 or its body is not JSON.
\<close>

definition malformed :: "response \<Rightarrow> bool" where
  "malformed r =
    (if ok r then (case body r of JsonBody v \<Rightarrow> False | NonJsonBody txt \<Rightarrow> True) else True)"

section \<open>Helper lemmas\<close>

lemma includes_str_iff:
  "includes_str hay search \<longleftrightarrow> (\<exists>pre post. hay = pre @ search @ post)"
proof -
  have "includes_str hay search \<longleftrightarrow> sublist search hay"
    by (induction hay) (auto simp: sublist_Cons_right)
  then show ?thesis by (simp add: sublist_def)
qed

lemma includes_str_empty: "includes_str hay []"
  by (cases hay) simp_all

lemma filteredTokens_us: "map name (filteredTokens ''us'') = [''USDC'', ''USDT'']"
  by code_simp

lemma storeBalance_routeState: "routeState (fst (storeBalance c r b sy s)) = routeState s"
  by (simp add: storeBalance_def routeState_def Let_def)

lemma getTokenBalance_routeState: "routeState (fst (getTokenBalance w c a r s)) = routeState s"
  unfolding getTokenBalance_def
  by (simp add: storeBalance_routeState Let_def split_beta
      split: option.split outcome.split list.split)

lemma handleConnectWallet_routeState: "routeState (fst (handleConnectWallet w s)) = routeState s"
  unfolding handleConnectWallet_def
  by (simp add: getTokenBalance_routeState Let_def split_beta
      routeState_def[of "_\<lparr>signer := _, walletAddress := _, provider := _\<rparr>"] routeState_def[of s]
      split: option.split outcome.split)

lemma handleFinishSwap_resume_isRoute:
  "isRoute (fst (handleFinishSwap_resume w data s)) = isRoute s"
  by (simp add: handleFinishSwap_resume_def split: option.split)

lemma handleFinishSwap_resume_falsy:
  "\<not> truthy data \<Longrightarrow>
   handleFinishSwap_resume w data s = (s, [ConsoleLog ''Failed to update transaction status''])"
  by (cases data) (simp_all add: handleFinishSwap_resume_def)

lemma aggregate_fetch_events:
  "filter isFetch (snd (aggregate w a1 amt a2)) =
     [Fetch '''' \<lparr>token1Address = a1, token1Amount = amt, token2Address = a2\<rparr>]"
  by (simp add: aggregate_def Let_def split: outcome.split)

lemma handleFinishSwap_unfold:
  "handleFinishSwap w s =
    (fst (handleFinishSwap_resume w
            (fst (aggregate w (address (fromToken s)) ''1'' (address (toToken s))))
            (handleFinishSwap_start s)),
     snd (aggregate w (address (fromToken s)) ''1'' (address (toToken s))) @
     snd (handleFinishSwap_resume w
            (fst (aggregate w (address (fromToken s)) ''1'' (address (toToken s))))
            (handleFinishSwap_start s)))"
  by (simp add: handleFinishSwap_def Let_def split_beta)

lemma handleFinishSwap_isRoute: "isRoute (fst (handleFinishSwap w s))"
  by (simp add: handleFinishSwap_unfold handleFinishSwap_start_def
      handleFinishSwap_resume_isRoute)

lemma step_keeps_isRoute: "isRoute s \<Longrightarrow> isRoute (step w a s)"
proof (cases a)
  case ClickConnect
  assume "isRoute s"
  moreover have "isRoute (fst (handleConnectWallet w s)) = isRoute s"
    using handleConnectWallet_routeState [of w s] by (simp add: routeState_def)
  ultimately show ?thesis using ClickConnect by simp
qed (simp_all add: handleSwap_def setAmount_def sourceSearchOnChange_def
      destinationSearchOnChange_def setSearchTerm_def handleFinishSwap_isRoute Let_def)

lemma run_keeps_isRoute: "isRoute s \<Longrightarrow> isRoute (run acts s)"
proof (induction acts arbitrary: s)
  case Nil
  then show ?case by simp
next
  case (Cons wa acts)
  obtain w a where wa: "wa = (w, a)" by (cases wa)
  from Cons.prems have "isRoute (step w a s)" by (rule step_keeps_isRoute)
  then have "isRoute (run acts (step w a s))" by (rule Cons.IH)
  with wa show ?case by simp
qed


section \<open>Aggregator client\<close>

text \<open>
  C1 (defect in the code). A response with status 500 is malformed, yet when its body is
  the JSON text of the empty object, \<open>aggregate\<close> returns that empty object as its data
  and logs no error: the status is not looked at. A body that is not JSON does give
  \<open>undefined\<close>.
\<close>

theorem aggregate_status_500_returned_as_data:
  "malformed \<lparr>status = 500, body = JsonBody (JObj [])\<rparr> \<and>
   aggregate (worldWithoutWallet (Resolved \<lparr>status = 500, body = JsonBody (JObj [])\<rparr>))
      ''0x4200000000000000000000000000000000000006'' ''1''
      ''0xfde4C96c8593536E31F229EA8f37b2ADa2699bb2'' =
     (Some (JObj []),
      [Fetch '''' \<lparr>token1Address = ''0x4200000000000000000000000000000000000006'',
                  token1Amount = ''1'',
                  token2Address = ''0xfde4C96c8593536E31F229EA8f37b2ADa2699bb2''\<rparr>]) \<and>
   truthy (Some (JObj []))"
  by (simp add: malformed_def ok_def aggregate_def worldWithoutWallet_def)

lemma aggregate_non_json_body:
  "fetch w '''' \<lparr>token1Address = a1, token1Amount = amt, token2Address = a2\<rparr> = Resolved r \<Longrightarrow>
   body r = NonJsonBody txt \<Longrightarrow> fst (aggregate w a1 amt a2) = None"
  by (simp add: aggregate_def)

section \<open>Route request\<close>



text \<open>
  C5. When the aggregate call of a route request returns nothing usable (\<open>undefined\<close>
  after a caught failure, or a falsy value), the stored route mapping is what it was
  before the request: the state changes in the in-route flag only, and exactly one
  network request was issued.
\<close>

theorem failed_aggregation_keeps_route:
  assumes "\<not> truthy (fst (aggregate w (address (fromToken s)) ''1'' (address (toToken s))))"
  shows "data1 (fst (handleFinishSwap w s)) = data1 s \<and>
         fst (handleFinishSwap w s) = s\<lparr>isRoute := True\<rparr> \<and>
         length (filter isFetch (snd (handleFinishSwap w s))) = 1"
proof -
  obtain data ev where agg:
    "aggregate w (address (fromToken s)) ''1'' (address (toToken s)) = (data, ev)"
    by (cases "aggregate w (address (fromToken s)) ''1'' (address (toToken s))")
  with assms have falsy: "\<not> truthy data" by simp
  have state: "fst (handleFinishSwap w s) = s\<lparr>isRoute := True\<rparr>"
    by (simp add: handleFinishSwap_unfold agg handleFinishSwap_resume_falsy [OF falsy]
        handleFinishSwap_start_def)
  have ev: "filter isFetch ev = [Fetch '''' \<lparr>token1Address = address (fromToken s),
      token1Amount = ''1'', token2Address = address (toToken s)\<rparr>]"
    using aggregate_fetch_events [of w "address (fromToken s)" "''1''" "address (toToken s)"]
    by (simp add: agg)
  have "filter isFetch (snd (handleFinishSwap w s)) = filter isFetch ev"
    by (simp add: handleFinishSwap_unfold agg handleFinishSwap_resume_falsy [OF falsy])
  with ev state show ?thesis by simp
qed

theorem failed_aggregation_keeps_route_witness:
  "\<not> truthy (fst (aggregate
        (worldWithoutWallet (Resolved \<lparr>status = 500, body = NonJsonBody ''Internal Server Error''\<rparr>))
        (address (fromToken (initial\<lparr>data1 := JObj [(''0xA1'', JNum 7)]\<rparr>))) ''1''
        (address (toToken (initial\<lparr>data1 := JObj [(''0xA1'', JNum 7)]\<rparr>))))) \<and>
   data1 (fst (handleFinishSwap
        (worldWithoutWallet (Resolved \<lparr>status = 500, body = NonJsonBody ''Internal Server Error''\<rparr>))
        (initial\<lparr>data1 := JObj [(''0xA1'', JNum 7)]\<rparr>))) = JObj [(''0xA1'', JNum 7)]"
proof -
  have h: "\<not> truthy (fst (aggregate
        (worldWithoutWallet (Resolved \<lparr>status = 500, body = NonJsonBody ''Internal Server Error''\<rparr>))
        (address (fromToken (initial\<lparr>data1 := JObj [(''0xA1'', JNum 7)]\<rparr>))) ''1''
        (address (toToken (initial\<lparr>data1 := JObj [(''0xA1'', JNum 7)]\<rparr>)))))"
    by (simp add: aggregate_def worldWithoutWallet_def)
  from failed_aggregation_keeps_route [OF h] h show ?thesis by simp
qed

text \<open>
  C6 (counterexample). With the network down, the route request leaves the in-route flag
  set after the call has resolved: the state after the continuation is the state at the
  suspension point, flag included.
\<close>

theorem in_route_flag_cleared_counterexample:
  "isRoute (handleFinishSwap_start initial) \<and>
   fst (aggregate (worldWithoutWallet (Rejected ''offline''))
          (address (fromToken initial)) ''1'' (address (toToken initial))) = None \<and>
   fst (handleFinishSwap_resume (worldWithoutWallet (Rejected ''offline'')) None
          (handleFinishSwap_start initial)) = handleFinishSwap_start initial \<and>
   isRoute (fst (handleFinishSwap (worldWithoutWallet (Rejected ''offline'')) initial))"
  by (simp add: handleFinishSwap_isRoute handleFinishSwap_start_def handleFinishSwap_resume_def
      aggregate_def worldWithoutWallet_def)

text \<open>
  C6 (amended). The in-route flag is set before the aggregate call starts; the
  continuation after the call never changes it, whatever the call returned; so it holds
  when the request is over, and after every later sequence of user actions.
\<close>

theorem in_route_flag_latched:
  "isRoute (handleFinishSwap_start s) \<and>
   isRoute (fst (handleFinishSwap_resume w data s')) = isRoute s' \<and>
   isRoute (fst (handleFinishSwap w s)) \<and>
   isRoute (run acts (fst (handleFinishSwap w s)))"
  by (simp add: handleFinishSwap_start_def handleFinishSwap_resume_isRoute
      handleFinishSwap_isRoute run_keeps_isRoute)

section \<open>Token filter, direction swap, presets, shared search\<close>

text \<open>
  C3. For every search term, \<open>filteredTokens\<close> keeps exactly the tokens of the fixed list
  of four whose lower-cased name contains the lower-cased term as a contiguous substring,
  in the order of the list; the empty term keeps the whole list, and the term \<open>us\<close> keeps
  USDC and USDT in that order.
\<close>

theorem filteredTokens_spec:
  "filteredTokens search =
     filter (\<lambda>token. \<exists>pre post. toLowerCase (name token) = pre @ toLowerCase search @ post) tokens \<and>
   subseq (filteredTokens search) tokens \<and>
   filteredTokens '''' = tokens \<and>
   map name tokens = [''ETH'', ''USDC'', ''USDT'', ''LINK''] \<and>
   map name (filteredTokens ''us'') = [''USDC'', ''USDT'']"
proof -
  have eq: "filteredTokens search =
     filter (\<lambda>token. \<exists>pre post. toLowerCase (name token) = pre @ toLowerCase search @ post) tokens"
    by (simp add: filteredTokens_def includes_str_iff)
  have sub: "subseq (filteredTokens search) tokens"
    by (simp add: filteredTokens_def)
  have all: "filteredTokens '''' = tokens"
    by (simp add: filteredTokens_def toLowerCase_def includes_str_empty)
  have names: "map name tokens = [''ETH'', ''USDC'', ''USDT'', ''LINK'']"
    by (simp add: tokens_def)
  from eq sub all names filteredTokens_us show ?thesis by blast
qed

text \<open>
  C4. Swapping the direction twice gives back the state it started from, tokens and their
  balances included; one swap puts each token, with its balance, in the other role.
\<close>

theorem handleSwap_involution:
  "handleSwap (handleSwap s) = s \<and>
   fromToken (handleSwap s) = toToken s \<and>
   toToken (handleSwap s) = fromToken s \<and>
   balance (fromToken (handleSwap s)) = balance (toToken s) \<and>
   balance (toToken (handleSwap s)) = balance (fromToken s)"
  by (simp add: handleSwap_def Let_def)

text \<open>
  C9. After pressing preset button \<open>P\<close> and then \<open>Q\<close>, the buttons marked active are
  exactly \<open>Q\<close>, for any two presets and so for distinct ones; after pressing \<open>P\<close> twice
  they are exactly \<open>P\<close>.
\<close>

theorem preset_selection_exclusive:
  "filter (active (step w2 (ClickPreset Q) (step w1 (ClickPreset P) s))) presets = [Q] \<and>
   filter (active (step w2 (ClickPreset P) (step w1 (ClickPreset P) s))) presets = [P] \<and>
   active (step w2 (ClickPreset Q) (step w1 (ClickPreset P) s)) R = (R = Q)"
proof -
  have one: "\<And>A s'. filter (active (setAmount (label A) s')) presets = [A]"
    subgoal for A s' by (cases A) (simp_all add: active_def setAmount_def presets_def)
    done
  have inj: "\<And>A B. (label A = label B) = (A = B)"
    subgoal for A B by (cases A; cases B) simp_all
    done
  show ?thesis
    by (simp add: one) (auto simp: active_def setAmount_def inj)
qed

text \<open>
  C10. In every state both dropdowns show the same search text and the same filtered
  list, and a term typed in either search box becomes the filter of both.
\<close>

theorem dropdowns_share_search:
  "sourceSearchValue s = destinationSearchValue s \<and>
   sourceDropdownItems s = destinationDropdownItems s \<and>
   sourceDropdownItems (step w (TypeSourceSearch v) s) = filteredTokens v \<and>
   destinationDropdownItems (step w (TypeSourceSearch v) s) = filteredTokens v \<and>
   sourceDropdownItems (step w (TypeDestinationSearch v) s) = filteredTokens v \<and>
   destinationDropdownItems (step w (TypeDestinationSearch v) s) = filteredTokens v \<and>
   sourceDropdownItems (run acts s) = destinationDropdownItems (run acts s)"
  by (simp add: sourceSearchValue_def destinationSearchValue_def sourceDropdownItems_def
      destinationDropdownItems_def sourceSearchOnChange_def destinationSearchOnChange_def
      setSearchTerm_def)

section \<open>Wallet connection and balance reads\<close>

text \<open>
  C7. Without a wallet extension, connecting shows the alert and does nothing else: no
  request of any kind is issued, and the state, wallet session included, is what it was.
  From the initial state the session stays unset.
\<close>

theorem connect_without_wallet:
  assumes "ethereum w = None"
  shows "handleConnectWallet w s = (s, [Alert ''MetaMask not found!'']) \<and>
         filter isRequest (snd (handleConnectWallet w s)) = [] \<and>
         signer (fst (handleConnectWallet w s)) = signer s \<and>
         walletAddress (fst (handleConnectWallet w s)) = walletAddress s \<and>
         provider (fst (handleConnectWallet w s)) = provider s \<and>
         signer (fst (handleConnectWallet w initial)) = None \<and>
         walletAddress (fst (handleConnectWallet w initial)) = None \<and>
         provider (fst (handleConnectWallet w initial)) = None"
  using assms by (simp add: handleConnectWallet_def initial_def)

theorem connect_without_wallet_witness:
  "ethereum (worldWithoutWallet (Rejected ''offline'')) = None \<and>
   handleConnectWallet (worldWithoutWallet (Rejected ''offline'')) initial =
     (initial, [Alert ''MetaMask not found!'']) \<and>
   signer initial = None \<and> walletAddress initial = None \<and> provider initial = None"
proof -
  have h: "ethereum (worldWithoutWallet (Rejected ''offline'')) = None"
    by (simp add: worldWithoutWallet_def)
  from connect_without_wallet [OF h, of initial] h show ?thesis
    by (simp add: initial_def)
qed



end
